theory Spec2Isabelle
  imports Main
begin

section \<open>SciPAn: the weekly arXiv digest (ai_suggest.py)\<close>

text \<open>
  The program is one Python module with three functions: \<open>search_arxiv\<close> fetches a
  feed and turns its entries into paper records, \<open>summarize_text\<close> asks a completion
  API for a summary and falls back to an extract of the input, \<open>generate_digest\<close>
  assembles the Markdown document.

  A Python \<open>str\<close> is modelled as a \<open>string\<close>; a \<open>char\<close> stands for a code point
  below 256. What the network answers is not computed by the program: the outcome of each
  HTTP call is an argument of the function that makes the call.
\<close>

subsection \<open>Python string operations used by the module\<close>

text \<open>
  \<open>str.strip()\<close> without an argument removes the characters for which
  \<open>str.isspace()\<close> holds. Below 256 these are U+0009..U+000D, U+001C..U+001F, U+0020,
  U+0085 and U+00A0.
\<close>

definition isspace :: "char \<Rightarrow> bool" where
  "isspace c = (c \<in> set
     [CHR 0x09, CHR 0x0A, CHR 0x0B, CHR 0x0C, CHR 0x0D,
      CHR 0x1C, CHR 0x1D, CHR 0x1E, CHR 0x1F, CHR 0x20, CHR 0x85, CHR 0xA0])"

definition lstrip :: "string \<Rightarrow> string" where
  "lstrip s = dropWhile isspace s"

definition rstrip :: "string \<Rightarrow> string" where
  "rstrip s = rev (dropWhile isspace (rev s))"

definition strip :: "string \<Rightarrow> string" where
  "strip s = rstrip (lstrip s)"

text \<open>\<open>sep.join(parts)\<close>\<close>

fun join :: "string \<Rightarrow> string list \<Rightarrow> string" where
  "join sep [] = []"
| "join sep [p] = p"
| "join sep (p # q # ps) = p @ sep @ join sep (q # ps)"

subsection \<open>The sentence splitter of \<open>summarize_text\<close>\<close>

text \<open>
  The source splits with \<^verbatim>\<open>re.split(r"(?<=[.!?])\\s+", text)\<close>. The pattern is a raw
  string, so the regular expression engine receives \<^verbatim>\<open>(?<=[.!?])\\s+\<close>: a
  look-behind for one of \<open>.\<close>, \<open>!\<close>, \<open>?\<close>, then a literal backslash (\<^verbatim>\<open>\\\<close>), then one or
  more letters \<open>s\<close>. A match is never empty and cannot start at position 0.

  \<open>re_split prev cur rest\<close> scans \<open>rest\<close> from left to right; \<open>prev\<close> is the character
  just before the scanning position (\<open>None\<close> at the start of the text) and \<open>cur\<close> the
  piece collected since the last match. Matches are leftmost and do not overlap, and
  \<open>s+\<close> is greedy. Every piece is returned, empty ones too.
\<close>

definition sentence_end :: "char option \<Rightarrow> bool" where
  "sentence_end prev =
     (prev = Some (CHR ''.'') \<or> prev = Some (CHR ''!'') \<or> prev = Some (CHR ''?''))"

definition is_s :: "char \<Rightarrow> bool" where
  "is_s c = (c = CHR ''s'')"

function re_split :: "char option \<Rightarrow> string \<Rightarrow> string \<Rightarrow> string list" where
  "re_split prev cur [] = [cur]"
| "re_split prev cur (c # cs) =
     (if sentence_end prev \<and> c = CHR 0x5C \<and> takeWhile is_s cs \<noteq> []
      then cur # re_split (Some (CHR ''s'')) [] (dropWhile is_s cs)
      else re_split (Some c) (cur @ [c]) cs)"
  by pat_completeness auto
termination
  by (relation "measure (\<lambda>(prev, cur, rest). length rest)")
     (auto simp: length_dropWhile_le less_Suc_eq_le)

text \<open>
  The fallback of lines 62 and 86:
  \<^verbatim>\<open>" ".join(re.split(r"(?<=[.!?])\\s+", text)[:3]).strip()\<close>
\<close>

definition fallback :: "string \<Rightarrow> string" where
  "fallback text = strip (join '' '' (take 3 (re_split None [] text)))"

subsection \<open>JSON values as Python objects\<close>

text \<open>
  \<open>resp.json()\<close> returns \<open>None\<close>, a \<open>bool\<close>, an \<open>int\<close>, a \<open>float\<close>, a \<open>str\<close>, a
  \<open>list\<close> or a \<open>dict\<close> with string keys. A \<open>dict\<close> is the list of its items in
  insertion order. Floating point numbers are not modelled: the type \<open>'f\<close> of floats is
  a parameter, and the two things the module observes of a float, whether it is zero
  (its truth value) and its \<open>repr\<close>, are the fields of \<open>float_ops\<close>.
\<close>

datatype 'f json =
    JNone
  | JBool bool
  | JInt int
  | JFloat 'f
  | JStr string
  | JList "'f json list"
  | JDict "(string \<times> 'f json) list"

record 'f float_ops =
  float_is_zero :: "'f \<Rightarrow> bool"
  float_repr :: "'f \<Rightarrow> string"

datatype py_exception = AttributeError | IndexError | KeyError | TypeError

text \<open>Truth value of an object, as \<open>not x\<close>, \<open>x or y\<close> test it.\<close>

fun truthy :: "'f float_ops \<Rightarrow> 'f json \<Rightarrow> bool" where
  "truthy fl JNone = False"
| "truthy fl (JBool b) = b"
| "truthy fl (JInt i) = (i \<noteq> 0)"
| "truthy fl (JFloat f) = (\<not> float_is_zero fl f)"
| "truthy fl (JStr s) = (s \<noteq> [])"
| "truthy fl (JList xs) = (xs \<noteq> [])"
| "truthy fl (JDict kvs) = (kvs \<noteq> [])"

text \<open>\<open>x or y\<close>\<close>

definition py_or :: "'f float_ops \<Rightarrow> 'f json \<Rightarrow> 'f json \<Rightarrow> 'f json" where
  "py_or fl x y = (if truthy fl x then x else y)"

text \<open>\<open>isinstance(x, dict)\<close>\<close>

fun is_dict :: "'f json \<Rightarrow> bool" where
  "is_dict (JDict kvs) = True"
| "is_dict _ = False"

text \<open>
  \<open>x.get(key, default)\<close>: only a \<open>dict\<close> has the method \<open>get\<close>; on any other object the
  attribute lookup raises \<open>AttributeError\<close>.
\<close>

fun dict_get :: "'f json \<Rightarrow> string \<Rightarrow> 'f json \<Rightarrow> py_exception + 'f json" where
  "dict_get (JDict kvs) key dflt =
     Inr (case map_of kvs key of None \<Rightarrow> dflt | Some v \<Rightarrow> v)"
| "dict_get _ key dflt = Inl AttributeError"

text \<open>
  \<open>x[0]\<close>: the first element of a list, the first character of a string
  (\<open>IndexError\<close> when empty); a \<open>dict\<close> from JSON has no key \<open>0\<close> (\<open>KeyError\<close>); the other
  objects are not subscriptable (\<open>TypeError\<close>).
\<close>

fun subscript0 :: "'f json \<Rightarrow> py_exception + 'f json" where
  "subscript0 (JList []) = Inl IndexError"
| "subscript0 (JList (x # xs)) = Inr x"
| "subscript0 (JStr []) = Inl IndexError"
| "subscript0 (JStr (c # cs)) = Inr (JStr [c])"
| "subscript0 (JDict kvs) = Inl KeyError"
| "subscript0 _ = Inl TypeError"

text \<open>\<open>x.strip()\<close>: only a \<open>str\<close> has the method.\<close>

fun method_strip :: "'f json \<Rightarrow> py_exception + string" where
  "method_strip (JStr s) = Inr (strip s)"
| "method_strip _ = Inl AttributeError"

subsection \<open>\<open>str\<close> and \<open>repr\<close> of JSON values\<close>

definition digit_char :: "nat \<Rightarrow> char" where
  "digit_char n = ''0123456789abcdef'' ! n"

function dec_nat :: "nat \<Rightarrow> string" where
  "dec_nat n = (if n < 10 then [digit_char n] else dec_nat (n div 10) @ [digit_char (n mod 10)])"
  by pat_completeness auto
termination
  by (relation "measure id") auto

declare dec_nat.simps [simp del]

definition dec_int :: "int \<Rightarrow> string" where
  "dec_int i = (if i < 0 then CHR ''-'' # dec_nat (nat (- i)) else dec_nat (nat i))"

text \<open>
  \<open>repr\<close> of a \<open>str\<close>: single quotes, unless the string has a single quote and no double
  quote; the quote and the backslash are escaped with a backslash, tab, newline and
  carriage return are written \<^verbatim>\<open>\t\<close>, \<^verbatim>\<open>\n\<close>, \<^verbatim>\<open>\r\<close>, every other non-printable character
  (below 256: the control characters, U+00A0 and U+00AD) as \<^verbatim>\<open>\xhh\<close>.
\<close>

definition repr_quote :: "string \<Rightarrow> char" where
  "repr_quote s = (if CHR 0x27 \<in> set s \<and> CHR 0x22 \<notin> set s then CHR 0x22 else CHR 0x27)"

definition isprintable :: "char \<Rightarrow> bool" where
  "isprintable c =
     (let n = (of_char c :: nat) in (32 \<le> n \<and> n < 127) \<or> (161 \<le> n \<and> n \<noteq> 173))"

definition hex_escape :: "char \<Rightarrow> string" where
  "hex_escape c =
     [CHR 0x5C, CHR ''x'', digit_char (of_char c div 16), digit_char (of_char c mod 16)]"

definition repr_char :: "char \<Rightarrow> char \<Rightarrow> string" where
  "repr_char q c =
     (if c = q \<or> c = CHR 0x5C then [CHR 0x5C, c]
      else if c = CHR 0x09 then [CHR 0x5C, CHR ''t'']
      else if c = CHR 0x0A then [CHR 0x5C, CHR ''n'']
      else if c = CHR 0x0D then [CHR 0x5C, CHR ''r'']
      else if \<not> isprintable c then hex_escape c
      else [c])"

definition repr_str :: "string \<Rightarrow> string" where
  "repr_str s = repr_quote s # concat (map (repr_char (repr_quote s)) s) @ [repr_quote s]"

fun py_repr :: "'f float_ops \<Rightarrow> 'f json \<Rightarrow> string" where
  "py_repr fl JNone = ''None''"
| "py_repr fl (JBool b) = (if b then ''True'' else ''False'')"
| "py_repr fl (JInt i) = dec_int i"
| "py_repr fl (JFloat f) = float_repr fl f"
| "py_repr fl (JStr s) = repr_str s"
| "py_repr fl (JList xs) = ''['' @ join '', '' (map (py_repr fl) xs) @ '']''"
| "py_repr fl (JDict kvs) =
     ''{'' @ join '', '' (map (\<lambda>(k, v). repr_str k @ '': '' @ py_repr fl v) kvs) @ ''}''"

text \<open>\<open>str(x)\<close>: a string is itself, every other object is its \<open>repr\<close>.\<close>

fun py_str :: "'f float_ops \<Rightarrow> 'f json \<Rightarrow> string" where
  "py_str fl (JStr s) = s"
| "py_str fl x = py_repr fl x"

subsection \<open>\<open>summarize_text\<close>\<close>

text \<open>
  The outcome of \<open>requests.post(...)\<close>, \<open>resp.raise_for_status()\<close> and \<open>resp.json()\<close>
  (lines 72 to 74): \<open>requests.post\<close> raised (no connection, or the 30 second timeout),
  \<open>raise_for_status\<close> raised, \<open>resp.json()\<close> raised because the body was not JSON, or the
  body was parsed to a value.
\<close>

datatype 'f post_result =
    NetworkError
  | Timeout
  | HttpError
  | MalformedJson
  | JsonBody "'f json"

text \<open>
  What the server did, before lines 72 to 74 look at it: no connection, no answer within
  the timeout, or a response with its status code and its body, \<open>None\<close> for a body that
  is not JSON. The response is the last one, after the redirections that \<open>requests\<close>
  follows.
\<close>

datatype 'f post_reply =
    NoConnection
  | TimedOut
  | Reply int "'f json option"

text \<open>
  Lines 72 to 74 on a reply. \<open>raise_for_status\<close> raises for a status code from 400 to 599
  and for no other: a reply with a status code 3xx that is not followed, or with any
  other code outside 2xx, goes on to \<open>resp.json()\<close> like a success.
\<close>

fun post_outcome :: "'f post_reply \<Rightarrow> 'f post_result" where
  "post_outcome NoConnection = NetworkError"
| "post_outcome TimedOut = Timeout"
| "post_outcome (Reply status body) =
     (if 400 \<le> status \<and> status < 600 then HttpError
      else (case body of None \<Rightarrow> MalformedJson | Some data \<Rightarrow> JsonBody data))"

text \<open>
  Lines 76 to 84, the rest of the \<open>try\<close> block, on the parsed body \<open>data\<close>. \<open>Inl\<close> is an
  exception raised inside the block.
\<close>

definition read_choice :: "'f float_ops \<Rightarrow> 'f json \<Rightarrow> py_exception + string" where
  "read_choice fl data =
     (case dict_get data ''choices'' (JList []) of
        Inl e \<Rightarrow> Inl e
      | Inr choices \<Rightarrow>
     (case subscript0 choices of
        Inl e \<Rightarrow> Inl e
      | Inr choice \<Rightarrow>
     (case (if is_dict choice
            then (case dict_get choice ''message'' JNone of
                    Inl e \<Rightarrow> Inl e
                  | Inr m \<Rightarrow>
                 (case dict_get (py_or fl m (JDict [])) ''content'' JNone of
                    Inl e \<Rightarrow> Inl e
                  | Inr c \<Rightarrow>
                      if truthy fl c then Inr c else dict_get choice ''text'' JNone))
            else Inr JNone) of
        Inl e \<Rightarrow> Inl e
      | Inr content \<Rightarrow>
          method_strip (if \<not> truthy fl content then JStr (py_str fl choice) else content))))"

text \<open>
  \<open>OPENROUTER_KEY\<close> is \<open>os.getenv("OPENROUTER_API_KEY")\<close>: \<open>None\<close> when the variable is
  not set. \<open>not OPENROUTER_KEY\<close> holds for \<open>None\<close> and for the empty string.
\<close>

definition no_key :: "string option \<Rightarrow> bool" where
  "no_key k = (k = None \<or> k = Some [])"

text \<open>
  \<open>summarize_text\<close> with the credential and the outcome of its HTTP call as arguments.
  The request it sends (prompt, headers, body) has no part in the result but through what
  the server answers. Every exception of the \<open>try\<close> block is caught by
  \<open>except Exception\<close>, so the result is a string.
\<close>

definition summarize_text ::
    "'f float_ops \<Rightarrow> string option \<Rightarrow> 'f post_result \<Rightarrow> string \<Rightarrow> string" where
  "summarize_text fl OPENROUTER_KEY resp text =
     (if no_key OPENROUTER_KEY then fallback text
      else (case resp of
              JsonBody data \<Rightarrow>
                (case read_choice fl data of
                   Inr content \<Rightarrow> content
                 | Inl e \<Rightarrow> fallback text)
            | _ \<Rightarrow> fallback text))"

subsection \<open>\<open>search_arxiv\<close>\<close>

text \<open>
  A feed entry as \<open>feedparser\<close> presents it: every attribute may be missing
  (\<open>getattr(entry, name, default)\<close> then gives the default). An author is an object whose
  \<open>name\<close> may be missing too; reading \<open>a.name\<close> then raises \<open>AttributeError\<close>.
\<close>

record author =
  a_name :: "string option"

record entry =
  e_title :: "string option"
  e_summary :: "string option"
  e_link :: "string option"
  e_authors :: "author list option"
  e_published :: "string option"
  e_id :: "string option"

text \<open>
  The dictionary appended to \<open>papers\<close> (lines 43 to 50); the field \<open>id_str\<close> is its
  key \<open>"id"\<close>.
\<close>

record paper =
  title :: string
  summary :: string
  link :: string
  authors :: string
  published :: string
  id_str :: string

text \<open>\<open>getattr(entry, name, default)\<close>\<close>

definition getattr :: "'a option \<Rightarrow> 'a \<Rightarrow> 'a" where
  "getattr attr dflt = (case attr of None \<Rightarrow> dflt | Some v \<Rightarrow> v)"

text \<open>
  \<^verbatim>\<open>re.sub(r"<[^>]+>", "", summary)\<close>: a match starts at a \<open><\<close>, takes the longest run of
  characters other than \<open>>\<close> (at least one, the \<open><\<close> of a later tag included) and the
  \<open>>\<close> that ends it. Matches are leftmost; where none starts, the character is kept.
\<close>

definition not_gt :: "char \<Rightarrow> bool" where
  "not_gt c = (c \<noteq> CHR ''>'')"

function strip_tags :: "string \<Rightarrow> string" where
  "strip_tags [] = []"
| "strip_tags (c # cs) =
     (if c = CHR ''<'' \<and> takeWhile not_gt cs \<noteq> [] \<and> dropWhile not_gt cs \<noteq> []
      then strip_tags (tl (dropWhile not_gt cs))
      else c # strip_tags cs)"
  by pat_completeness auto
termination
proof (relation "measure length")
  fix c :: char and cs :: string
  assume "c = CHR ''<'' \<and> takeWhile not_gt cs \<noteq> [] \<and> dropWhile not_gt cs \<noteq> []"
  have "length (tl (dropWhile not_gt cs)) \<le> length (dropWhile not_gt cs)"
    by simp
  also have "\<dots> \<le> length cs"
    by (rule length_dropWhile_le)
  finally show "(tl (dropWhile not_gt cs), c # cs) \<in> measure length"
    by simp
qed auto

text \<open>
  The generator \<open>a.name for a in authors\<close>, consumed by \<open>", ".join\<close>: the first author
  without a name raises.
\<close>

fun author_names :: "author list \<Rightarrow> py_exception + string list" where
  "author_names [] = Inr []"
| "author_names (a # as) =
     (case a_name a of
        None \<Rightarrow> Inl AttributeError
      | Some n \<Rightarrow> (case author_names as of Inl e \<Rightarrow> Inl e | Inr ns \<Rightarrow> Inr (n # ns)))"

text \<open>
  The loop of lines 38 to 50, with the list \<open>papers\<close> built so far. \<open>unescape\<close> is
  \<open>html.unescape\<close>, a function of the Python library that is taken as a parameter.
\<close>

fun entries_loop ::
    "(string \<Rightarrow> string) \<Rightarrow> entry list \<Rightarrow> paper list \<Rightarrow> py_exception + paper list" where
  "entries_loop unescape [] papers = Inr papers"
| "entries_loop unescape (e # es) papers =
     (case author_names (getattr (e_authors e) []) of
        Inl exn \<Rightarrow> Inl exn
      | Inr names \<Rightarrow>
          entries_loop unescape es
            (papers @
             [\<lparr> title = strip (getattr (e_title e) []),
                summary = strip_tags (strip (unescape (getattr (e_summary e) []))),
                link = getattr (e_link e) [],
                authors = join '', '' names,
                published = getattr (e_published e) [],
                id_str = getattr (e_id e) [] \<rparr>]))"

text \<open>
  The outcome of \<open>requests.get(...)\<close> and \<open>r.raise_for_status()\<close> (lines 30 and 31), and
  the entries \<open>feedparser.parse(r.text)\<close> finds in a reply.
\<close>

datatype get_result =
    GetNetworkError
  | GetTimeout
  | GetHttpError
  | Feed "entry list"

text \<open>
  \<open>search_arxiv\<close>: \<open>query\<close> and \<open>max_results\<close> are written into the URL of the request
  and are used nowhere else.
\<close>

definition search_arxiv ::
    "(string \<Rightarrow> string) \<Rightarrow> get_result \<Rightarrow> string \<Rightarrow> int \<Rightarrow> py_exception + paper list" where
  "search_arxiv unescape r query max_results =
     (case r of
        Feed entries \<Rightarrow> entries_loop unescape entries []
      | _ \<Rightarrow> Inr [])"

subsection \<open>\<open>generate_digest\<close>\<close>

definition TOPIC :: string where
  "TOPIC = ''microwave plasma CVD diamond growth''"

text \<open>
  The four lines appended for the paper with ordinal \<open>i\<close> (lines 93 to 97). \<open>post i\<close> is
  the outcome of the HTTP call that \<open>summarize_text\<close> makes for that paper.
\<close>

definition paper_lines ::
    "'f float_ops \<Rightarrow> string option \<Rightarrow> (nat \<Rightarrow> 'f post_result) \<Rightarrow> nat \<Rightarrow> paper \<Rightarrow> string list" where
  "paper_lines fl OPENROUTER_KEY post i p =
     [''### '' @ dec_nat i @ ''. '' @ title p,
      ''**Authors:** '' @ authors p,
      ''**Summary:** '' @ summarize_text fl OPENROUTER_KEY (post i) (summary p),
      ''[Read on arXiv]('' @ link p @ '')'' @ [CHR 0x0A]]"

text \<open>The loop \<open>for i, paper in enumerate(papers, 1)\<close> over the list \<open>lines\<close>.\<close>

fun digest_loop ::
    "'f float_ops \<Rightarrow> string option \<Rightarrow> (nat \<Rightarrow> 'f post_result) \<Rightarrow> nat \<Rightarrow> paper list \<Rightarrow>
     string list \<Rightarrow> string list" where
  "digest_loop fl OPENROUTER_KEY post i [] lines = lines"
| "digest_loop fl OPENROUTER_KEY post i (p # ps) lines =
     digest_loop fl OPENROUTER_KEY post (i + 1) ps
       (lines @ paper_lines fl OPENROUTER_KEY post i p)"

text \<open>The first line; \<open>today\<close> is \<open>date.today().isoformat()\<close>.\<close>

definition title_line :: "string \<Rightarrow> string" where
  "title_line today = ''# Weekly Digest: '' @ TOPIC @ '' ('' @ today @ '')'' @ [CHR 0x0A]"

definition generate_digest ::
    "'f float_ops \<Rightarrow> string option \<Rightarrow> (nat \<Rightarrow> 'f post_result) \<Rightarrow> string \<Rightarrow> paper list \<Rightarrow> string" where
  "generate_digest fl OPENROUTER_KEY post today papers =
     join [CHR 0x0A] (digest_loop fl OPENROUTER_KEY post 1 papers [title_line today])"

subsection \<open>Predicates used to state the properties\<close>

text \<open>
  Lines 72 to 74 raise on the reply: no connection, timeout, a status code from 400 to 599,
  or a body that is not JSON.
\<close>

fun reply_raises :: "'f post_reply \<Rightarrow> bool" where
  "reply_raises NoConnection = True"
| "reply_raises TimedOut = True"
| "reply_raises (Reply status body) = ((400 \<le> status \<and> status < 600) \<or> body = None)"

text \<open>
  A failed request in the words of claim C4: network error, timeout, a status code that
  is not 2xx, or malformed JSON.
\<close>

fun claimed_failure :: "'f post_reply \<Rightarrow> bool" where
  "claimed_failure NoConnection = True"
| "claimed_failure TimedOut = True"
| "claimed_failure (Reply status body) = ((status < 200 \<or> 300 \<le> status) \<or> body = None)"

text \<open>The HTTP call of \<open>search_arxiv\<close> raised.\<close>

fun fetch_failed :: "get_result \<Rightarrow> bool" where
  "fetch_failed (Feed entries) = False"
| "fetch_failed _ = True"

text \<open>
  An instance of the float operations for concrete evaluations: the only float is \<open>0.0\<close>.
\<close>

definition only_zero :: "unit float_ops" where
  "only_zero = \<lparr> float_is_zero = (\<lambda>f. True), float_repr = (\<lambda>f. ''0.0'') \<rparr>"

text \<open>A string that neither starts nor ends with a white space character.\<close>

definition no_outer_space :: "string \<Rightarrow> bool" where
  "no_outer_space s =
     (case s of [] \<Rightarrow> True | c # cs \<Rightarrow> \<not> isspace c \<and> \<not> isspace (last s))"

text \<open>\<open>d.get(k)\<close> on the items of a \<open>dict\<close>: the value, or \<open>None\<close>.\<close>

definition field :: "(string \<times> 'f json) list \<Rightarrow> string \<Rightarrow> 'f json" where
  "field kvs k = (case map_of kvs k of None \<Rightarrow> JNone | Some v \<Rightarrow> v)"

text \<open>
  The choice \<open>c\<close> gives no content: its \<open>message\<close> is missing or false, or it is a \<open>dict\<close>
  whose \<open>content\<close> is missing or false (\<open>None\<close>, the empty string, zero, an empty list
  or \<open>dict\<close>).
\<close>

definition no_content :: "'f float_ops \<Rightarrow> (string \<times> 'f json) list \<Rightarrow> bool" where
  "no_content fl c =
     (case field c ''message'' of
        JDict m \<Rightarrow> \<not> truthy fl (field m ''content'')
      | v \<Rightarrow> \<not> truthy fl v)"

text \<open>
  \<open>None\<close>, a \<open>bool\<close>, an \<open>int\<close>, a \<open>list\<close> or a \<open>dict\<close>: the objects whose \<open>str\<close> is fixed
  by the model and neither starts nor ends with white space.
\<close>

definition plain_value :: "'f json \<Rightarrow> bool" where
  "plain_value x =
     (case x of JNone \<Rightarrow> True | JBool b \<Rightarrow> True | JInt i \<Rightarrow> True
      | JList xs \<Rightarrow> True | JDict kvs \<Rightarrow> True | _ \<Rightarrow> False)"

text \<open>
  The record that the loop of \<open>search_arxiv\<close> builds from an entry all of whose authors
  have a name.
\<close>

definition record_of :: "(string \<Rightarrow> string) \<Rightarrow> entry \<Rightarrow> paper" where
  "record_of unescape e =
     \<lparr> title = strip (getattr (e_title e) []),
       summary = strip_tags (strip (unescape (getattr (e_summary e) []))),
       link = getattr (e_link e) [],
       authors = join '', '' (map (\<lambda>a. the (a_name a)) (getattr (e_authors e) [])),
       published = getattr (e_published e) [],
       id_str = getattr (e_id e) [] \<rparr>"

text \<open>
  The count that claim C2 states, in the words of the specification: the list holds
  exactly min(available, cap) records, or it is empty.
\<close>

definition claimed_count :: "nat \<Rightarrow> int \<Rightarrow> paper list \<Rightarrow> bool" where
  "claimed_count available cap ps = (ps = [] \<or> int (length ps) = min (int available) cap)"

section \<open>Properties\<close>

subsection \<open>Facts about \<open>strip\<close> and the splitter\<close>

lemma dropWhile_last_kept:
  "dropWhile P xs \<noteq> [] \<Longrightarrow> last (dropWhile P xs) = last xs"
  by (induction xs) (auto split: if_splits)

lemma strip_hd: "strip s \<noteq> [] \<Longrightarrow> \<not> isspace (hd (strip s))"
proof -
  assume ne: "strip s \<noteq> []"
  let ?t = "dropWhile isspace s"
  let ?u = "dropWhile isspace (rev ?t)"
  from ne have u: "?u \<noteq> []" by (simp add: strip_def lstrip_def rstrip_def)
  then have t: "?t \<noteq> []" by (metis dropWhile.simps(1) rev.simps(1))
  have "hd (strip s) = last ?u"
    using u by (simp add: strip_def lstrip_def rstrip_def hd_rev)
  also have "\<dots> = last (rev ?t)" using u by (rule dropWhile_last_kept)
  also have "\<dots> = hd ?t" using t by (simp add: last_rev)
  finally show ?thesis using t hd_dropWhile [of isspace s] by simp
qed

lemma strip_last: "strip s \<noteq> [] \<Longrightarrow> \<not> isspace (last (strip s))"
proof -
  assume ne: "strip s \<noteq> []"
  let ?u = "dropWhile isspace (rev (dropWhile isspace s))"
  from ne have u: "?u \<noteq> []" by (simp add: strip_def lstrip_def rstrip_def)
  have "last (strip s) = hd ?u"
    using u by (simp add: strip_def lstrip_def rstrip_def last_rev)
  then show ?thesis using u hd_dropWhile [of isspace "rev (dropWhile isspace s)"] by simp
qed

lemma strip_no_outer_space: "no_outer_space (strip s)"
proof (cases "strip s")
  case Nil
  then show ?thesis by (simp add: no_outer_space_def)
next
  case (Cons c cs)
  then have ne: "strip s \<noteq> []" by simp
  from strip_hd [OF ne] strip_last [OF ne] Cons show ?thesis
    by (simp add: no_outer_space_def)
qed

lemma strip_nonempty:
  assumes "\<exists>c\<in>set s. \<not> isspace c"
  shows "strip s \<noteq> []"
proof -
  from assms have t: "dropWhile isspace s \<noteq> []"
    by (simp add: dropWhile_eq_Nil_conv)
  then have "\<not> isspace (hd (dropWhile isspace s))" by (rule hd_dropWhile)
  moreover have "hd (dropWhile isspace s) \<in> set (rev (dropWhile isspace s))"
    using t by simp
  ultimately have "dropWhile isspace (rev (dropWhile isspace s)) \<noteq> []"
    by (auto simp: dropWhile_eq_Nil_conv)
  then show ?thesis by (simp add: strip_def lstrip_def rstrip_def)
qed

lemma strip_fixed:
  assumes "s \<noteq> []" "\<not> isspace (hd s)" "\<not> isspace (last s)"
  shows "strip s = s"
proof -
  from assms have l: "dropWhile isspace s = s" by (cases s) auto
  from assms have "dropWhile isspace (rev s) = rev s"
    by (cases "rev s") (auto simp: hd_rev)
  with l show ?thesis by (simp add: strip_def lstrip_def rstrip_def)
qed

lemma sentence_end_not_space: "sentence_end (Some c) \<Longrightarrow> \<not> isspace c"
  by (auto simp: sentence_end_def isspace_def)

text \<open>
  The first piece of the splitter holds a character that is not white space as soon as
  the text does: a match needs a \<open>.\<close>, \<open>!\<close> or \<open>?\<close> before it, and that character is in the
  piece that the match closes.
\<close>

lemma re_split_first_piece:
  assumes "cur = [] \<longrightarrow> \<not> sentence_end prev"
    and "cur \<noteq> [] \<longrightarrow> prev = Some (last cur)"
    and "\<exists>c\<in>set (cur @ rest). \<not> isspace c"
  shows "\<exists>p ps. re_split prev cur rest = p # ps \<and> (\<exists>c\<in>set p. \<not> isspace c)"
  using assms
proof (induction rest arbitrary: prev cur)
  case Nil
  then show ?case by simp
next
  case (Cons c cs)
  show ?case
  proof (cases "sentence_end prev \<and> c = CHR 0x5C \<and> takeWhile is_s cs \<noteq> []")
    case True
    with Cons.prems(1) have ne: "cur \<noteq> []" by blast
    with Cons.prems(2) have "prev = Some (last cur)" by blast
    with True have "\<not> isspace (last cur)" using sentence_end_not_space by blast
    moreover have "last cur \<in> set cur" using ne by simp
    ultimately have "\<exists>c\<in>set cur. \<not> isspace c" by blast
    with True show ?thesis by simp
  next
    case False
    have "\<exists>p ps. re_split (Some c) (cur @ [c]) cs = p # ps \<and> (\<exists>c\<in>set p. \<not> isspace c)"
    proof (rule Cons.IH)
      show "cur @ [c] = [] \<longrightarrow> \<not> sentence_end (Some c)" by simp
      show "cur @ [c] \<noteq> [] \<longrightarrow> Some c = Some (last (cur @ [c]))" by simp
      show "\<exists>x\<in>set ((cur @ [c]) @ cs). \<not> isspace x" using Cons.prems(3) by simp
    qed
    with False show ?thesis by auto
  qed
qed

lemma set_join_first: "set p \<subseteq> set (join sep (p # ps))"
  by (cases ps) auto

lemma fallback_nonempty:
  assumes "\<exists>c\<in>set text. \<not> isspace c"
  shows "fallback text \<noteq> []"
proof -
  have "\<exists>p ps. re_split None [] text = p # ps \<and> (\<exists>c\<in>set p. \<not> isspace c)"
    using assms by (intro re_split_first_piece) (simp_all add: sentence_end_def)
  then obtain p ps where split: "re_split None [] text = p # ps"
    and p: "\<exists>c\<in>set p. \<not> isspace c" by blast
  have "take 3 (p # ps) = p # take 2 ps" by (simp add: numeral_3_eq_3 numeral_2_eq_2)
  then have "set p \<subseteq> set (join '' '' (take 3 (re_split None [] text)))"
    using split set_join_first [of p "'' ''" "take 2 ps"] by simp
  with p have "\<exists>c\<in>set (join '' '' (take 3 (re_split None [] text))). \<not> isspace c"
    by blast
  then show ?thesis unfolding fallback_def by (rule strip_nonempty)
qed

text \<open>A text without a backslash is never split.\<close>

lemma re_split_no_backslash:
  "CHR 0x5C \<notin> set rest \<Longrightarrow> re_split prev cur rest = [cur @ rest]"
  by (induction rest arbitrary: prev cur) auto

lemma read_choice_stripped:
  "read_choice fl data = Inr s \<Longrightarrow> \<exists>u. s = strip u"
  unfolding read_choice_def
  by (auto split: sum.splits if_splits elim!: method_strip.elims)

lemma summarize_text_stripped: "\<exists>u. summarize_text fl key resp text = strip u"
  unfolding summarize_text_def fallback_def
  by (auto split: post_result.splits sum.splits dest: read_choice_stripped)

subsection \<open>Facts about reading the response\<close>

lemma dict_get_field: "dict_get (JDict kvs) k JNone = Inr (field kvs k)"
  by (simp add: field_def)

lemma field_Nil: "field [] k = JNone"
  by (simp add: field_def)

lemma py_repr_dict_fixed: "strip (py_repr fl (JDict kvs)) = py_repr fl (JDict kvs)"
  by (rule strip_fixed) (simp_all add: isspace_def)

text \<open>\<open>read_choice\<close> once the first choice is known to be a \<open>dict\<close>.\<close>

lemma read_choice_dict:
  assumes "map_of d ''choices'' = Some chs" "subscript0 chs = Inr (JDict c)"
  shows "read_choice fl (JDict d) =
     (case (case dict_get (py_or fl (field c ''message'') (JDict [])) ''content'' JNone of
              Inl e \<Rightarrow> Inl e
            | Inr v \<Rightarrow> if truthy fl v then Inr v else Inr (field c ''text'')) of
        Inl e \<Rightarrow> Inl e
      | Inr content \<Rightarrow>
          method_strip (if \<not> truthy fl content then JStr (py_repr fl (JDict c)) else content))"
  using assms by (simp add: read_choice_def field_def split: sum.splits)

lemma read_choice_content:
  assumes "map_of d ''choices'' = Some chs" "subscript0 chs = Inr (JDict c)"
    and "field c ''message'' = JDict m" "field m ''content'' = JStr s" "s \<noteq> []"
  shows "read_choice fl (JDict d) = Inr (strip s)"
proof -
  from assms(4,5) have "m \<noteq> []" by (auto simp: field_def)
  with assms(3,4,5)
  have "dict_get (py_or fl (field c ''message'') (JDict [])) ''content'' JNone = Inr (JStr s)"
    by (simp add: py_or_def dict_get_field del: dict_get.simps)
  with assms show ?thesis
    by (simp add: read_choice_dict del: dict_get.simps)
qed

lemma no_content_get:
  assumes "no_content fl c"
  shows "\<exists>v. dict_get (py_or fl (field c ''message'') (JDict [])) ''content'' JNone = Inr v \<and>
             \<not> truthy fl v"
  using assms
  by (cases "field c ''message''")
     (auto simp: no_content_def py_or_def dict_get_field field_Nil simp del: dict_get.simps)

lemma read_choice_text:
  assumes "map_of d ''choices'' = Some chs" "subscript0 chs = Inr (JDict c)"
    and "no_content fl c" "field c ''text'' = JStr t" "t \<noteq> []"
  shows "read_choice fl (JDict d) = Inr (strip t)"
  using assms(1,2,4,5) no_content_get [OF assms(3)]
  by (auto simp: read_choice_dict simp del: dict_get.simps)

lemma read_choice_neither:
  assumes "map_of d ''choices'' = Some chs" "subscript0 chs = Inr (JDict c)"
    and "no_content fl c" "\<not> truthy fl (field c ''text'')"
  shows "read_choice fl (JDict d) = Inr (py_repr fl (JDict c))"
  using assms(1,2,4) no_content_get [OF assms(3)] py_repr_dict_fixed [of fl c]
  by (auto simp: read_choice_dict simp del: py_repr.simps dict_get.simps)

lemma read_choice_not_dict:
  assumes "map_of d ''choices'' = Some chs" "subscript0 chs = Inr choice"
    and "\<not> is_dict choice"
  shows "read_choice fl (JDict d) = Inr (strip (py_str fl choice))"
  using assms by (simp add: read_choice_def)


lemma digit_char_not_space: "n < 10 \<Longrightarrow> \<not> isspace (digit_char n)"
proof -
  assume "n < 10"
  then have "n \<in> {0, 1, 2, 3, 4, 5, 6, 7, 8, 9}" by auto
  then show ?thesis by (auto simp: digit_char_def isspace_def)
qed

lemma dec_nat_ends:
  "dec_nat n \<noteq> [] \<and> \<not> isspace (hd (dec_nat n)) \<and> \<not> isspace (last (dec_nat n))"
proof (induction n rule: dec_nat.induct)
  case (1 n)
  show ?case
  proof (cases "n < 10")
    case True
    then show ?thesis
      by (subst (1 2 3) dec_nat.simps) (simp add: digit_char_not_space)
  next
    case False
    with "1" have ih: "dec_nat (n div 10) \<noteq> []" "\<not> isspace (hd (dec_nat (n div 10)))"
      by simp_all
    have "n mod 10 < 10" by simp
    then have "\<not> isspace (digit_char (n mod 10))" by (rule digit_char_not_space)
    with False ih show ?thesis
      by (subst (1 2 3) dec_nat.simps) simp
  qed
qed

lemma dec_int_ends:
  "dec_int i \<noteq> [] \<and> \<not> isspace (hd (dec_int i)) \<and> \<not> isspace (last (dec_int i))"
  using dec_nat_ends [of "nat (- i)"] dec_nat_ends [of "nat i"]
  by (simp add: dec_int_def isspace_def)

lemma py_str_plain_ends:
  assumes "plain_value x"
  shows "py_str fl x \<noteq> [] \<and> \<not> isspace (hd (py_str fl x)) \<and>
         \<not> isspace (last (py_str fl x))"
proof (cases x)
  case (JInt i)
  then show ?thesis using dec_int_ends [of i] by simp
qed (use assms in \<open>simp_all add: plain_value_def isspace_def\<close>)

lemma py_str_plain_fixed:
  "plain_value x \<Longrightarrow> strip (py_str fl x) = py_str fl x"
  using py_str_plain_ends [of x fl] by (intro strip_fixed) simp_all

subsection \<open>Facts about the two loops\<close>


lemma author_names_all:
  "\<forall>a\<in>set as. a_name a \<noteq> None \<Longrightarrow>
   author_names as = Inr (map (\<lambda>a. the (a_name a)) as)"
  by (induction as) auto

lemma entries_loop_closed:
  assumes "\<forall>e\<in>set es. \<forall>a\<in>set (getattr (e_authors e) []). a_name a \<noteq> None"
  shows "entries_loop unescape es papers = Inr (papers @ map (record_of unescape) es)"
  using assms
proof (induction es arbitrary: papers)
  case Nil
  then show ?case by simp
next
  case (Cons e es)
  then have "author_names (getattr (e_authors e) []) =
      Inr (map (\<lambda>a. the (a_name a)) (getattr (e_authors e) []))"
    by (intro author_names_all) simp
  with Cons show ?case by (simp add: record_of_def)
qed

subsection \<open>The fallback summary\<close>

text \<open>
  C1 (the code departs from the claim). With no credential, the claim expects the first
  three sentences, \<open>A. B. C.\<close> for the text \<open>A. B. C. D.\<close>. The pattern of the source
  splits at a backslash followed by letters \<open>s\<close>, not at white space, so the text is
  returned whole.
\<close>

theorem summarize_text_four_sentences:
  "summarize_text fl None resp ''A. B. C. D.'' = ''A. B. C. D.''"
  by (simp add: summarize_text_def no_key_def fallback_def strip_def lstrip_def rstrip_def
      isspace_def sentence_end_def is_s_def)

text \<open>
  C4 (as stated: false). A reply with the status code 300 is not a 2xx reply, but
  \<open>raise_for_status\<close> does not raise for it: its JSON body is read, and the result is the
  content \<open>X\<close> of the reply, not the string \<open>One. Two.\<close> returned without a credential.
\<close>

theorem summarize_text_failed_reply_counterexample:
  "claimed_failure
     (Reply 300 (Some (JDict [(''choices'',
        JList [JDict [(''message'', JDict [(''content'', JStr ''X'')])]])])) :: unit post_reply) \<and>
   summarize_text only_zero (Some ''sk-1'')
     (post_outcome (Reply 300 (Some (JDict [(''choices'',
        JList [JDict [(''message'', JDict [(''content'', JStr ''X'')])]])]))))
     ''One. Two.'' = ''X'' \<and>
   summarize_text only_zero None
     (post_outcome (Reply 300 (Some (JDict [(''choices'',
        JList [JDict [(''message'', JDict [(''content'', JStr ''X'')])]])]))))
     ''One. Two.'' = ''One. Two.''"
  by (simp add: summarize_text_def no_key_def read_choice_def py_or_def fallback_def
      strip_def lstrip_def rstrip_def isspace_def sentence_end_def is_s_def)

text \<open>
  C4 (amended). When lines 72 to 74 raise (no connection, timeout, a status code from 400
  to 599, a body that is not JSON), the result is the string returned for the same text
  when no credential is configured. The function returns a string on every input: every
  exception of the \<open>try\<close> block is caught.
\<close>

theorem summarize_text_failed_reply:
  "reply_raises reply \<Longrightarrow>
   summarize_text fl key (post_outcome reply) text = summarize_text fl None resp text"
proof (cases reply)
  case NoConnection
  then show ?thesis by (simp add: summarize_text_def no_key_def)
next
  case TimedOut
  then show ?thesis by (simp add: summarize_text_def no_key_def)
next
  case (Reply status body)
  assume "reply_raises reply"
  with Reply have "post_outcome reply = HttpError \<or> post_outcome reply = MalformedJson"
    by auto
  then show ?thesis by (auto simp: summarize_text_def no_key_def)
qed

theorem summarize_text_failed_reply_witness:
  "reply_raises (TimedOut :: unit post_reply) \<and>
   summarize_text only_zero (Some ''sk-1'') (post_outcome TimedOut) ''One. Two.'' =
     summarize_text only_zero None (JsonBody JNone) ''One. Two.'' \<and>
   reply_raises (Reply 503 (Some (JStr ''busy'')) :: unit post_reply) \<and>
   summarize_text only_zero (Some ''sk-1'') (post_outcome (Reply 503 (Some (JStr ''busy''))))
     ''One. Two.'' = summarize_text only_zero None (JsonBody JNone) ''One. Two.'' \<and>
   reply_raises (Reply 200 None :: unit post_reply) \<and>
   summarize_text only_zero (Some ''sk-1'') (post_outcome (Reply 200 None)) ''One. Two.'' =
     summarize_text only_zero None (JsonBody JNone) ''One. Two.''"
  using summarize_text_failed_reply
      [of TimedOut only_zero "Some ''sk-1''" "''One. Two.''" "JsonBody JNone"]
    summarize_text_failed_reply
      [of "Reply 503 (Some (JStr ''busy''))" only_zero "Some ''sk-1''" "''One. Two.''"
        "JsonBody JNone"]
    summarize_text_failed_reply
      [of "Reply 200 None" only_zero "Some ''sk-1''" "''One. Two.''" "JsonBody JNone"]
  by simp

subsection \<open>The fetcher\<close>

text \<open>
  C5. When the HTTP request of \<open>search_arxiv\<close> fails, the function returns the empty list
  and raises nothing.
\<close>

theorem search_arxiv_fetch_failure:
  "fetch_failed r \<Longrightarrow> search_arxiv unescape r query max_results = Inr []"
  by (cases r) (simp_all add: search_arxiv_def)

theorem search_arxiv_fetch_failure_witness:
  "fetch_failed GetTimeout \<and> search_arxiv id GetTimeout TOPIC 10 = Inr []"
  using search_arxiv_fetch_failure [of GetTimeout id TOPIC 10]
  by simp

text \<open>
  C2 (as stated: false). The cap is written into the URL and nothing else: when the reply
  holds two entries and the cap is 1, two records are returned, which is neither
  min(available, 1) records nor an empty list.
\<close>

theorem search_arxiv_records_counterexample:
  "search_arxiv id
     (Feed [\<lparr> e_title = Some ''A'', e_summary = Some ''S'', e_link = Some ''L'',
              e_authors = Some [\<lparr> a_name = Some ''N'' \<rparr>], e_published = Some ''P'',
              e_id = Some ''1'' \<rparr>,
            \<lparr> e_title = Some ''B'', e_summary = Some ''S'', e_link = Some ''L'',
              e_authors = Some [\<lparr> a_name = Some ''N'' \<rparr>], e_published = Some ''P'',
              e_id = Some ''2'' \<rparr>]) TOPIC 1 =
   Inr [\<lparr> title = ''A'', summary = ''S'', link = ''L'', authors = ''N'', published = ''P'',
           id_str = ''1'' \<rparr>,
        \<lparr> title = ''B'', summary = ''S'', link = ''L'', authors = ''N'', published = ''P'',
           id_str = ''2'' \<rparr>] \<and>
   \<not> claimed_count 2 1
       [\<lparr> title = ''A'', summary = ''S'', link = ''L'', authors = ''N'', published = ''P'',
           id_str = ''1'' \<rparr>,
        \<lparr> title = ''B'', summary = ''S'', link = ''L'', authors = ''N'', published = ''P'',
           id_str = ''2'' \<rparr>]"
  by (simp add: search_arxiv_def getattr_def strip_def lstrip_def rstrip_def isspace_def
      not_gt_def claimed_count_def)

text \<open>
  C2 (amended). For every topic and cap: when the request fails the result is the empty
  list; when a feed is received and every author in it has a name, the result is one
  record per entry of the feed, in the order of the feed, however many entries there are,
  and each record has the six fields, a missing attribute being read as the empty string;
  an entry with no attribute at all gives six empty fields (\<open>html.unescape\<close> maps the
  empty string to itself).
\<close>

theorem search_arxiv_records:
  "(fetch_failed r \<longrightarrow> search_arxiv unescape r query max_results = Inr []) \<and>
   ((\<forall>e\<in>set entries. \<forall>a\<in>set (getattr (e_authors e) []). a_name a \<noteq> None) \<longrightarrow>
      search_arxiv unescape (Feed entries) query max_results =
        Inr (map (\<lambda>e.
          \<lparr> title = strip (getattr (e_title e) []),
            summary = strip_tags (strip (unescape (getattr (e_summary e) []))),
            link = getattr (e_link e) [],
            authors = join '', '' (map (\<lambda>a. the (a_name a)) (getattr (e_authors e) [])),
            published = getattr (e_published e) [],
            id_str = getattr (e_id e) [] \<rparr>) entries)) \<and>
   (unescape [] = [] \<longrightarrow>
      search_arxiv unescape
        (Feed [\<lparr> e_title = None, e_summary = None, e_link = None, e_authors = None,
                 e_published = None, e_id = None \<rparr>]) query max_results =
        Inr [\<lparr> title = [], summary = [], link = [], authors = [], published = [],
                id_str = [] \<rparr>])"
proof (intro conjI impI)
  assume "fetch_failed r"
  then show "search_arxiv unescape r query max_results = Inr []"
    by (cases r) (simp_all add: search_arxiv_def)
next
  assume "\<forall>e\<in>set entries. \<forall>a\<in>set (getattr (e_authors e) []). a_name a \<noteq> None"
  then have "entries_loop unescape entries [] = Inr ([] @ map (record_of unescape) entries)"
    by (rule entries_loop_closed)
  then show "search_arxiv unescape (Feed entries) query max_results =
        Inr (map (\<lambda>e.
          \<lparr> title = strip (getattr (e_title e) []),
            summary = strip_tags (strip (unescape (getattr (e_summary e) []))),
            link = getattr (e_link e) [],
            authors = join '', '' (map (\<lambda>a. the (a_name a)) (getattr (e_authors e) [])),
            published = getattr (e_published e) [],
            id_str = getattr (e_id e) [] \<rparr>) entries)"
    by (simp add: search_arxiv_def record_of_def [abs_def])
next
  assume "unescape [] = []"
  then show "search_arxiv unescape
        (Feed [\<lparr> e_title = None, e_summary = None, e_link = None, e_authors = None,
                 e_published = None, e_id = None \<rparr>]) query max_results =
        Inr [\<lparr> title = [], summary = [], link = [], authors = [], published = [],
                id_str = [] \<rparr>]"
    by (simp add: search_arxiv_def getattr_def strip_def lstrip_def rstrip_def)
qed

theorem search_arxiv_records_witness:
  "fetch_failed GetHttpError \<and>
   search_arxiv id GetHttpError TOPIC 10 = Inr [] \<and>
   search_arxiv id
     (Feed [\<lparr> e_title = None, e_summary = None, e_link = None, e_authors = None,
              e_published = None, e_id = None \<rparr>,
            \<lparr> e_title = Some '' Diamond '', e_summary = Some '' <p>Grown.</p> '',
              e_link = Some ''http://a/1'',
              e_authors = Some [\<lparr> a_name = Some ''A'' \<rparr>, \<lparr> a_name = Some ''B'' \<rparr>],
              e_published = Some ''2025-01-05'', e_id = Some ''1'' \<rparr>]) TOPIC 10 =
   Inr [\<lparr> title = [], summary = [], link = [], authors = [], published = [], id_str = [] \<rparr>,
        \<lparr> title = ''Diamond'', summary = ''Grown.'', link = ''http://a/1'', authors = ''A, B'',
           published = ''2025-01-05'', id_str = ''1'' \<rparr>]"
  using search_arxiv_records [of GetHttpError id TOPIC 10
     "[\<lparr> e_title = None, e_summary = None, e_link = None, e_authors = None,
              e_published = None, e_id = None \<rparr>,
            \<lparr> e_title = Some '' Diamond '', e_summary = Some '' <p>Grown.</p> '',
              e_link = Some ''http://a/1'',
              e_authors = Some [\<lparr> a_name = Some ''A'' \<rparr>, \<lparr> a_name = Some ''B'' \<rparr>],
              e_published = Some ''2025-01-05'', e_id = Some ''1'' \<rparr>]"]
  by (simp add: getattr_def strip_def lstrip_def rstrip_def isspace_def not_gt_def)

subsection \<open>The digest\<close>

text \<open>
  C8. For the empty list of papers the digest is the title line alone: the fixed topic
  and the date, and no section.
\<close>

theorem generate_digest_empty:
  "generate_digest fl key post today [] =
     ''# Weekly Digest: microwave plasma CVD diamond growth ('' @ today @ '')'' @ [CHR 0x0A]"
  by (simp add: generate_digest_def title_line_def TOPIC_def)



subsection \<open>What \<open>summarize_text\<close> returns\<close>

text \<open>
  C10. Whatever the credential, the outcome of the request and the text, the string that
  \<open>summarize_text\<close> returns neither starts nor ends with a white space character: every
  \<open>return\<close> applies \<open>strip()\<close>.
\<close>

theorem summarize_text_no_outer_space:
  "no_outer_space (summarize_text fl key resp text)"
  using summarize_text_stripped [of fl key resp "text"] strip_no_outer_space by auto

text \<open>
  C7 (as stated: false). A text that is not empty can give an empty summary: a text of
  white space without a credential, and any text when the API answers with a content of
  white space.
\<close>

theorem summarize_text_nonempty_counterexample:
  "'' '' \<noteq> [] \<and>
   summarize_text only_zero None Timeout '' '' = [] \<and>
   ''abc'' \<noteq> [] \<and>
   summarize_text only_zero (Some ''sk-1'')
     (JsonBody (JDict [(''choices'',
        JList [JDict [(''message'', JDict [(''content'', JStr '' '')])]])])) ''abc'' = []"
  by (simp add: summarize_text_def no_key_def fallback_def read_choice_def py_or_def
      strip_def lstrip_def rstrip_def isspace_def sentence_end_def is_s_def)

text \<open>
  C7 (amended). For a text with at least one character that is not white space, the
  summary is empty in one case only: a credential is configured, the response is read
  without an exception, and the content selected from it is empty once stripped. So the
  summary is not empty without a credential, when the request fails and when reading the
  response raises.
\<close>

theorem summarize_text_nonempty:
  assumes "\<exists>c\<in>set text. \<not> isspace c"
  shows "summarize_text fl key resp text = [] \<longleftrightarrow>
         \<not> no_key key \<and> (\<exists>data. resp = JsonBody data \<and> read_choice fl data = Inr [])"
  using fallback_nonempty [OF assms]
  by (auto simp: summarize_text_def split: post_result.splits sum.splits)

theorem summarize_text_nonempty_witness:
  "\<not> isspace (CHR ''a'') \<and>
   summarize_text only_zero None Timeout ''abc'' \<noteq> [] \<and>
   summarize_text only_zero (Some ''sk-1'') HttpError ''abc'' \<noteq> []"
proof -
  have h: "\<exists>c\<in>set ''abc''. \<not> isspace c"
    by (simp add: isspace_def)
  show ?thesis
    using summarize_text_nonempty [OF h, of only_zero None Timeout]
      summarize_text_nonempty [OF h, of only_zero "Some ''sk-1''" HttpError]
    by (simp add: isspace_def no_key_def)
qed

subsection \<open>Reading the response of the API\<close>

text \<open>
  C3 (as stated: false). The first choice has an empty \<open>content\<close> and the \<open>text\<close>
  \<open>" T "\<close>. The result is \<open>"T"\<close>: not the content field, which is present, not the text
  field as it stands, and not the stringification of the choice.
\<close>

theorem summarize_text_shapes_counterexample:
  "summarize_text only_zero (Some ''sk-1'')
     (JsonBody (JDict [(''choices'',
        JList [JDict [(''message'', JDict [(''content'', JStr [])]),
                      (''text'', JStr '' T '')]])])) ''abc'' = ''T'' \<and>
   ''T'' \<noteq> [] \<and> ''T'' \<noteq> '' T '' \<and>
   ''T'' \<noteq> py_str only_zero
             (JDict [(''message'', JDict [(''content'', JStr [])]), (''text'', JStr '' T '')])"
  by (simp add: summarize_text_def no_key_def read_choice_def py_or_def
      strip_def lstrip_def rstrip_def isspace_def)

text \<open>
  C3 (amended). With a credential and a response whose \<open>choices\<close> has a \<open>dict\<close> as first
  element: when the \<open>content\<close> of its \<open>message\<close> is a non-empty string, the result is
  that content stripped of surrounding white space; when there is no content (missing or
  false) and its \<open>text\<close> is a non-empty string, the result is that text stripped; when
  both are missing or false, the result is \<open>str\<close> of the first choice.
\<close>

theorem summarize_text_shapes:
  assumes "\<not> no_key key"
    and "map_of d ''choices'' = Some chs"
    and "subscript0 chs = Inr (JDict c)"
  shows "(field c ''message'' = JDict m \<and> field m ''content'' = JStr s \<and> s \<noteq> [] \<longrightarrow>
            summarize_text fl key (JsonBody (JDict d)) text = strip s) \<and>
         (no_content fl c \<and> field c ''text'' = JStr t \<and> t \<noteq> [] \<longrightarrow>
            summarize_text fl key (JsonBody (JDict d)) text = strip t) \<and>
         (no_content fl c \<and> \<not> truthy fl (field c ''text'') \<longrightarrow>
            summarize_text fl key (JsonBody (JDict d)) text = py_str fl (JDict c))"
proof (intro conjI impI)
  assume "field c ''message'' = JDict m \<and> field m ''content'' = JStr s \<and> s \<noteq> []"
  then have "read_choice fl (JDict d) = Inr (strip s)"
    using assms(2,3) by (intro read_choice_content) auto
  with assms(1) show "summarize_text fl key (JsonBody (JDict d)) text = strip s"
    by (simp add: summarize_text_def)
next
  assume "no_content fl c \<and> field c ''text'' = JStr t \<and> t \<noteq> []"
  then have "read_choice fl (JDict d) = Inr (strip t)"
    using assms(2,3) by (intro read_choice_text) auto
  with assms(1) show "summarize_text fl key (JsonBody (JDict d)) text = strip t"
    by (simp add: summarize_text_def)
next
  assume "no_content fl c \<and> \<not> truthy fl (field c ''text'')"
  then have "read_choice fl (JDict d) = Inr (py_repr fl (JDict c))"
    using assms(2,3) by (intro read_choice_neither) auto
  with assms(1) show "summarize_text fl key (JsonBody (JDict d)) text = py_str fl (JDict c)"
    by (simp add: summarize_text_def)
qed

theorem summarize_text_shapes_witness:
  "\<not> no_key (Some ''sk-1'') \<and>
   summarize_text only_zero (Some ''sk-1'')
     (JsonBody (JDict [(''choices'',
        JList [JDict [(''message'', JDict [(''content'', JStr ''X'')])]])])) ''abc'' = ''X'' \<and>
   summarize_text only_zero (Some ''sk-1'')
     (JsonBody (JDict [(''choices'', JList [JDict [(''text'', JStr '' T '')]])])) ''abc'' = ''T'' \<and>
   summarize_text only_zero (Some ''sk-1'')
     (JsonBody (JDict [(''choices'', JList [JDict [(''index'', JInt 0)]])])) ''abc'' =
     [CHR ''{'', CHR 0x27, CHR ''i'', CHR ''n'', CHR ''d'', CHR ''e'', CHR ''x'', CHR 0x27,
      CHR '':'', CHR '' '', CHR ''0'', CHR ''}'']"
proof -
  have k: "\<not> no_key (Some ''sk-1'')" by (simp add: no_key_def)
  have 1: "summarize_text only_zero (Some ''sk-1'')
     (JsonBody (JDict [(''choices'',
        JList [JDict [(''message'', JDict [(''content'', JStr ''X'')])]])])) ''abc'' = ''X''"
    using summarize_text_shapes [OF k, of "[(''choices'',
        JList [JDict [(''message'', JDict [(''content'', JStr ''X'')])]])]"
        "JList [JDict [(''message'', JDict [(''content'', JStr ''X'')])]]"
        "[(''message'', JDict [(''content'', JStr ''X'')])]"
        "[(''content'', JStr ''X'')]" "''X''" only_zero "''abc''"]
    by (simp add: field_def strip_def lstrip_def rstrip_def isspace_def)
  have 2: "summarize_text only_zero (Some ''sk-1'')
     (JsonBody (JDict [(''choices'', JList [JDict [(''text'', JStr '' T '')]])])) ''abc'' = ''T''"
    using summarize_text_shapes [OF k, of "[(''choices'', JList [JDict [(''text'', JStr '' T '')]])]"
        "JList [JDict [(''text'', JStr '' T '')]]" "[(''text'', JStr '' T '')]"
        _ _ only_zero "''abc''" "'' T ''"]
    by (simp add: field_def no_content_def strip_def lstrip_def rstrip_def isspace_def)
  have 3: "summarize_text only_zero (Some ''sk-1'')
     (JsonBody (JDict [(''choices'', JList [JDict [(''index'', JInt 0)]])])) ''abc'' =
     [CHR ''{'', CHR 0x27, CHR ''i'', CHR ''n'', CHR ''d'', CHR ''e'', CHR ''x'', CHR 0x27,
      CHR '':'', CHR '' '', CHR ''0'', CHR ''}'']"
    using summarize_text_shapes [OF k, of "[(''choices'', JList [JDict [(''index'', JInt 0)]])]"
        "JList [JDict [(''index'', JInt 0)]]" "[(''index'', JInt 0)]"
        _ _ only_zero "''abc''"]
    by (simp add: field_def no_content_def repr_str_def repr_quote_def repr_char_def
        isprintable_def dec_int_def dec_nat.simps digit_char_def)
  from k 1 2 3 show ?thesis by blast
qed

text \<open>
  C9 (as stated: false). With an empty \<open>content\<close> and the \<open>text\<close> \<open>" "\<close> the result is
  the empty string, not the stringification of the first choice; and a first choice that
  is the string \<open>" "\<close>, not an object, gives the empty string too.
\<close>

theorem summarize_text_empty_content_counterexample:
  "summarize_text only_zero (Some ''sk-1'')
     (JsonBody (JDict [(''choices'',
        JList [JDict [(''message'', JDict [(''content'', JStr [])]),
                      (''text'', JStr '' '')]])])) ''abc'' = [] \<and>
   py_str only_zero
     (JDict [(''message'', JDict [(''content'', JStr [])]), (''text'', JStr '' '')]) \<noteq> [] \<and>
   summarize_text only_zero (Some ''sk-1'')
     (JsonBody (JDict [(''choices'', JList [JStr '' ''])])) ''abc'' = [] \<and>
   py_str only_zero (JStr '' '') \<noteq> []"
  by (simp add: summarize_text_def no_key_def read_choice_def py_or_def
      strip_def lstrip_def rstrip_def isspace_def)

text \<open>
  C9 (amended). With a credential and a response whose \<open>choices\<close> has a first element:
  when that element is a \<open>dict\<close> whose \<open>message\<close> has an empty or missing \<open>content\<close>
  and whose \<open>text\<close> is missing or false, the result is \<open>str\<close> of the element, which is
  never empty; when the element is not a \<open>dict\<close>, the result is \<open>str\<close> of the element
  stripped of surrounding white space, which is \<open>str\<close> of the element itself, and not
  empty, for \<open>None\<close>, a \<open>bool\<close>, an \<open>int\<close> and a \<open>list\<close>.
\<close>

theorem summarize_text_empty_content:
  assumes "\<not> no_key key"
    and "map_of d ''choices'' = Some chs"
    and "subscript0 chs = Inr choice"
  shows "(choice = JDict c \<and> field c ''message'' = JDict m \<and>
          (field m ''content'' = JStr [] \<or> field m ''content'' = JNone) \<and>
          \<not> truthy fl (field c ''text'') \<longrightarrow>
            summarize_text fl key (JsonBody (JDict d)) text = py_str fl choice \<and>
            summarize_text fl key (JsonBody (JDict d)) text \<noteq> []) \<and>
         (\<not> is_dict choice \<longrightarrow>
            summarize_text fl key (JsonBody (JDict d)) text = strip (py_str fl choice)) \<and>
         (\<not> is_dict choice \<and> plain_value choice \<longrightarrow>
            summarize_text fl key (JsonBody (JDict d)) text = py_str fl choice \<and>
            summarize_text fl key (JsonBody (JDict d)) text \<noteq> [])"
proof (intro conjI impI)
  assume h: "choice = JDict c \<and> field c ''message'' = JDict m \<and>
          (field m ''content'' = JStr [] \<or> field m ''content'' = JNone) \<and>
          \<not> truthy fl (field c ''text'')"
  then have "no_content fl c" by (auto simp: no_content_def)
  with h have "read_choice fl (JDict d) = Inr (py_repr fl (JDict c))"
    using assms(2,3) by (intro read_choice_neither) auto
  with assms(1) h have r: "summarize_text fl key (JsonBody (JDict d)) text = py_str fl choice"
    by (simp add: summarize_text_def)
  then show "summarize_text fl key (JsonBody (JDict d)) text = py_str fl choice" .
  from r h show "summarize_text fl key (JsonBody (JDict d)) text \<noteq> []" by simp
next
  assume "\<not> is_dict choice"
  then have "read_choice fl (JDict d) = Inr (strip (py_str fl choice))"
    using assms(2,3) by (intro read_choice_not_dict)
  with assms(1) show "summarize_text fl key (JsonBody (JDict d)) text = strip (py_str fl choice)"
    by (simp add: summarize_text_def)
next
  assume h: "\<not> is_dict choice \<and> plain_value choice"
  then have "read_choice fl (JDict d) = Inr (strip (py_str fl choice))"
    using assms(2,3) by (intro read_choice_not_dict) simp_all
  with assms(1) h have r: "summarize_text fl key (JsonBody (JDict d)) text = py_str fl choice"
    by (simp add: summarize_text_def py_str_plain_fixed)
  then show "summarize_text fl key (JsonBody (JDict d)) text = py_str fl choice" .
  from r h show "summarize_text fl key (JsonBody (JDict d)) text \<noteq> []"
    using py_str_plain_ends [of choice fl] by simp
qed

theorem summarize_text_empty_content_witness:
  "\<not> no_key (Some ''sk-1'') \<and>
   summarize_text only_zero (Some ''sk-1'')
     (JsonBody (JDict [(''choices'',
        JList [JDict [(''message'', JDict [(''content'', JStr [])])]])])) ''abc'' =
     py_str only_zero (JDict [(''message'', JDict [(''content'', JStr [])])]) \<and>
   summarize_text only_zero (Some ''sk-1'')
     (JsonBody (JDict [(''choices'', JList [JStr '' done ''])])) ''abc'' = ''done'' \<and>
   summarize_text only_zero (Some ''sk-1'')
     (JsonBody (JDict [(''choices'', JList [JInt 42])])) ''abc'' = ''42''"
proof -
  have k: "\<not> no_key (Some ''sk-1'')" by (simp add: no_key_def)
  have 1: "summarize_text only_zero (Some ''sk-1'')
     (JsonBody (JDict [(''choices'',
        JList [JDict [(''message'', JDict [(''content'', JStr [])])]])])) ''abc'' =
     py_str only_zero (JDict [(''message'', JDict [(''content'', JStr [])])])"
    using summarize_text_empty_content [OF k, of "[(''choices'',
        JList [JDict [(''message'', JDict [(''content'', JStr [])])]])]"
        "JList [JDict [(''message'', JDict [(''content'', JStr [])])]]"
        "JDict [(''message'', JDict [(''content'', JStr [])])]"
        "[(''message'', JDict [(''content'', JStr [])])]"
        "[(''content'', JStr [])]" only_zero "''abc''"]
    by (simp add: field_def del: py_str.simps py_repr.simps)
  have 2: "summarize_text only_zero (Some ''sk-1'')
     (JsonBody (JDict [(''choices'', JList [JStr '' done ''])])) ''abc'' = ''done''"
    using summarize_text_empty_content [OF k, of "[(''choices'', JList [JStr '' done ''])]"
        "JList [JStr '' done '']" "JStr '' done ''" _ _ only_zero "''abc''"]
    by (simp add: strip_def lstrip_def rstrip_def isspace_def)
  have 3: "summarize_text only_zero (Some ''sk-1'')
     (JsonBody (JDict [(''choices'', JList [JInt 42])])) ''abc'' = ''42''"
    using summarize_text_empty_content [OF k, of "[(''choices'', JList [JInt 42])]"
        "JList [JInt 42]" "JInt 42" _ _ only_zero "''abc''"]
    by (simp add: plain_value_def dec_int_def dec_nat.simps digit_char_def
        strip_def lstrip_def rstrip_def isspace_def)
  from k 1 2 3 show ?thesis by blast
qed

end
